theory Spec2Isabelle
  imports Main
begin

section \<open>Building blocks: placer ids and initialization from a file\<close>

subsection \<open>Atoms and functional groups\<close>

text \<open>
  \<open>Atom(id, atomic_number, charge)\<close> as \<open>_init_from_rdkit_mol\<close> builds it. Of a functional
  group only \<open>get_placer_ids()\<close> is read by the code below, so a functional group is the
  sequence of placer ids it yields together with the other atom ids it holds.
\<close>

record atom =
  atom_id :: int
  atomic_number :: int
  charge :: int

definition get_id :: "atom \<Rightarrow> int" where
  "get_id a = atom_id a"

record functional_group =
  fg_atom_ids :: "int list"
  fg_placer_ids :: "int list"

definition get_placer_ids :: "functional_group \<Rightarrow> int list" where
  "get_placer_ids fg = fg_placer_ids fg"

text \<open>
  \<open>flatten\<close> is imported from \<open>stk.utilities\<close>, which is not among the sources. It is applied
  here to a generator of id generators only, where flattening yields the ids of the first
  group, then those of the second, and so on.
\<close>

definition flatten :: "int list list \<Rightarrow> int list" where
  "flatten xss = concat xss"

subsection \<open>\<open>BuildingBlock._normalize_placer_ids\<close>\<close>

text \<open>
  \<open>placer_ids\<close> is \<open>Optional[tuple[int, ...]]\<close>: \<open>None\<close> or a tuple, which may be empty.
  \<open>if functional_groups:\<close> is the truth value of a tuple: true exactly when it is not empty.
  The first argument stands for \<open>self._atoms\<close>.
\<close>

definition normalize_placer_ids ::
  "atom list \<Rightarrow> int list option \<Rightarrow> functional_group list \<Rightarrow> int list" where
  "normalize_placer_ids atoms placer_ids functional_groups =
     (if placer_ids \<noteq> None then the placer_ids
      else if functional_groups \<noteq> [] then
        flatten (map get_placer_ids functional_groups)
      else map get_id atoms)"

subsection \<open>\<open>os.path.splitext\<close> (POSIX)\<close>

text \<open>
  \<open>str.rfind\<close>: the highest index at which the character occurs, or \<open>-1\<close>.
\<close>

fun rfind_upto :: "string \<Rightarrow> char \<Rightarrow> nat \<Rightarrow> int" where
  "rfind_upto p c 0 = -1"
| "rfind_upto p c (Suc i) = (if p ! i = c then int i else rfind_upto p c i)"

definition rfind :: "string \<Rightarrow> char \<Rightarrow> int" where
  "rfind p c = rfind_upto p c (length p)"

text \<open>
  The loop of \<open>genericpath._splitext\<close> that skips the leading dots of the file name:
  \<^verbatim>\<open>
    while filenameIndex < dotIndex:
        if p[filenameIndex:filenameIndex+1] != extsep:
            return p[:dotIndex], p[dotIndex:]
        filenameIndex += 1
  \<close>
  \<open>None\<close> stands for leaving the loop without returning.
\<close>

function skip_leading_dots :: "string \<Rightarrow> nat \<Rightarrow> nat \<Rightarrow> (string \<times> string) option" where
  "skip_leading_dots p filenameIndex dotIndex =
     (if filenameIndex < dotIndex then
        (if p ! filenameIndex \<noteq> CHR ''.'' then Some (take dotIndex p, drop dotIndex p)
         else skip_leading_dots p (Suc filenameIndex) dotIndex)
      else None)"
  by pat_completeness auto
termination
  by (relation "measure (\<lambda>(p, filenameIndex, dotIndex). dotIndex - filenameIndex)") auto

declare skip_leading_dots.simps [simp del]

definition splitext :: "string \<Rightarrow> string \<times> string" where
  "splitext p =
     (let sepIndex = rfind p CHR ''/'';
          dotIndex = rfind p CHR ''.''
      in if dotIndex > sepIndex then
           (case skip_leading_dots p (nat (sepIndex + 1)) (nat dotIndex) of
              Some r \<Rightarrow> r
            | None \<Rightarrow> (p, []))
         else (p, []))"

subsection \<open>\<open>BuildingBlock.init_from_file\<close>\<close>

text \<open>
  The values of \<open>_init_funcs\<close> are partial applications of two rdkit readers. A call of one
  of them is a value here: the reader, the path, and the keyword arguments the partial
  application fixes (\<open>sanitize\<close>, \<open>removeHs\<close> and, for PDB, \<open>proximityBonding\<close>).
\<close>

datatype rdkit_call =
    MolFromMolFile string bool bool
  | MolFromPDBFile string bool bool bool

definition init_funcs :: "string \<rightharpoonup> (string \<Rightarrow> rdkit_call)" where
  "init_funcs =
     [''.mol'' \<mapsto> (\<lambda>path. MolFromMolFile path False False),
      ''.sdf'' \<mapsto> (\<lambda>path. MolFromMolFile path False False),
      ''.pdb'' \<mapsto> (\<lambda>path. MolFromPDBFile path False False False)]"

datatype py_error = ValueError string

text \<open>
  \<open>init_from_file\<close> up to the call of the reader: the extension check of lines 507 to 512
  and the choice of the reader in line 517. What rdkit, \<open>remake\<close> and
  \<open>init_from_rdkit_mol\<close> do with the file afterwards is outside this model.
\<close>

definition init_from_file :: "string \<Rightarrow> py_error + rdkit_call" where
  "init_from_file path =
     (let extension = snd (splitext path)
      in if init_funcs extension = None then
           Inl (ValueError (''Unable to initialize from '' @ [CHR 0x22] @ extension
                            @ [CHR 0x22] @ '' files.''))
         else Inr (the (init_funcs extension) path))"

section \<open>The genetic algorithm: \<open>run\<close> of \<open>__main__.py\<close>\<close>

subsection \<open>Collaborators\<close>

text \<open>
  \<open>run\<close> drives a \<open>Population\<close> through its methods. The class is imported from \<open>.ga\<close>
  and is not among the sources, so its methods are parameters of the model: a record of
  functions over an arbitrary type \<open>'p\<close> of population values and a type \<open>'c\<close> of members.
  A method is a function of the value of its receiver; errors inside a collaborator are
  not modelled.

  \<^item> \<open>pop_init name size\<close> is \<open>getattr(Population, name)(**params, size=size, ga_tools=...)\<close>,
    with \<open>size = None\<close> when the call passes no \<open>size\<close> (the restart branch);
  \<^item> \<open>Population members\<close> is the constructor call \<open>Population(pop.ga_tools, *members)\<close>;
  \<^item> \<open>add p q\<close> is \<open>p + q\<close>;
  \<^item> \<open>remove_duplicates\<close> and \<open>normalize_fitness_values\<close> give the value their receiver
    holds after the call: \<open>run\<close> calls both for their effect and drops what they return.
\<close>

record ('c, 'p) population_class =
  pop_init :: "string \<Rightarrow> int option \<Rightarrow> 'p"
  len :: "'p \<Rightarrow> nat"
  Population :: "'c list \<Rightarrow> 'p"
  optimize_population :: "'p \<Rightarrow> 'c list"
  calculate_member_fitness :: "'p \<Rightarrow> 'c list"
  normalize_fitness_values :: "'p \<Rightarrow> 'p"
  gen_offspring :: "'p \<Rightarrow> 'p"
  gen_mutants :: "'p \<Rightarrow> 'p"
  add :: "'p \<Rightarrow> 'p \<Rightarrow> 'p"
  remove_duplicates :: "'p \<Rightarrow> 'p"
  gen_next_gen :: "'p \<Rightarrow> int \<Rightarrow> 'p"
  exit :: "'p \<Rightarrow> bool"

text \<open>The fields of \<open>GAInput\<close> that \<open>run\<close> reads; \<open>pop_size\<close> is also written (line 67).\<close>

record ga_input =
  pop_size :: int
  num_generations :: int
  init_func_name :: string

subsection \<open>State, objects and the call log\<close>

text \<open>
  A path is the list of its components below the launch directory. Every call \<open>run\<close> makes
  on a collaborator is logged, a population method with the value of its receiver at the
  time of the call. \<open>Check_size a b\<close> logs the comparison of line 108 with its two sides,
  \<open>len(pop)\<close> and \<open>ga_input.pop_size\<close>.
\<close>

type_synonym path = "string list"

datatype 'p event =
    Kill_macromodel
  | Archive_output
  | Tar_output
  | Mkdir path
  | Copyfile path
  | Pop_init string "int option"
  | Check_size int int
  | Optimize_population 'p
  | Calculate_member_fitness 'p
  | Normalize_fitness_values 'p
  | Gen_offspring 'p
  | Gen_mutants 'p
  | Add 'p 'p
  | Remove_duplicates 'p
  | Gen_next_gen 'p int
  | Write 'p path
  | Dump 'p path
  | Progress_update 'p
  | Exit 'p bool
  | Plot_epp path
  | Dump_progress path

text \<open>
  Populations are objects: \<open>heap\<close> maps a reference to the value of the object it denotes,
  \<open>pop\<close> is the local variable of \<open>run\<close> and holds a reference. An expression that builds
  a population allocates a new object; a method called for its effect updates the object
  its receiver denotes. \<open>obj\<close> reads an object; \<open>run\<close> reads only references it has
  allocated before.
\<close>

record 'p state =
  heap :: "nat \<rightharpoonup> 'p"
  next_ref :: nat
  pop :: nat
  ga_input :: ga_input
  cwd :: path
  trace :: "'p event list"

datatype ga_error = PopulationSizeError string

datatype flow = Continue | Break | Raise ga_error

definition emit :: "'p event \<Rightarrow> 'p state \<Rightarrow> 'p state" where
  "emit e s = s\<lparr>trace := trace s @ [e]\<rparr>"

definition new :: "'p \<Rightarrow> 'p state \<Rightarrow> nat \<times> 'p state" where
  "new v s = (next_ref s, s\<lparr>heap := (heap s)(next_ref s \<mapsto> v), next_ref := Suc (next_ref s)\<rparr>)"

definition obj :: "'p state \<Rightarrow> nat \<Rightarrow> 'p" where
  "obj s r = the (heap s r)"

definition assign_pop :: "'p \<Rightarrow> 'p state \<Rightarrow> 'p state" where
  "assign_pop v s = (let (r, s) = new v s in s\<lparr>pop := r\<rparr>)"

definition update_pop :: "('p \<Rightarrow> 'p) \<Rightarrow> 'p state \<Rightarrow> 'p state" where
  "update_pop f s = s\<lparr>heap := (heap s)(pop s \<mapsto> f (obj s (pop s)))\<rparr>"

subsection \<open>The file system calls\<close>

text \<open>
  \<open>os.mkdir\<close> is logged with the path it makes, \<open>os.chdir\<close> changes the working directory
  of the state, by a name or to a path saved earlier. The calls are taken to succeed.
\<close>

definition mkdir :: "string \<Rightarrow> 'p state \<Rightarrow> 'p state" where
  "mkdir name s = emit (Mkdir (cwd s @ [name])) s"

definition chdir :: "string \<Rightarrow> 'p state \<Rightarrow> 'p state" where
  "chdir name s = s\<lparr>cwd := cwd s @ [name]\<rparr>"

definition chdir_abs :: "path \<Rightarrow> 'p state \<Rightarrow> 'p state" where
  "chdir_abs dir s = s\<lparr>cwd := dir\<rparr>"

text \<open>\<open>str(x)\<close> of an integer: its decimal digits, after a minus sign if it is negative.\<close>

function str_nat :: "nat \<Rightarrow> string" where
  "str_nat n =
     (if n < 10 then [char_of (48 + n)]
      else str_nat (n div 10) @ [char_of (48 + n mod 10)])"
  by pat_completeness auto
termination
  by (relation "measure (\<lambda>n. n)") auto

declare str_nat.simps [simp del]

definition str :: "int \<Rightarrow> string" where
  "str x = (if x < 0 then CHR ''-'' # str_nat (nat (- x)) else str_nat (nat x))"

subsection \<open>The stages\<close>

text \<open>\<open>pop.write(os.getcwd())\<close> and \<open>pop.dump(os.path.join(os.getcwd(), name))\<close>.\<close>

definition pop_write :: "'p state \<Rightarrow> 'p state" where
  "pop_write s = emit (Write (obj s (pop s)) (cwd s)) s"

definition pop_dump :: "string \<Rightarrow> 'p state \<Rightarrow> 'p state" where
  "pop_dump name s = emit (Dump (obj s (pop s)) (cwd s @ [name])) s"

text \<open>
  Lines 59 to 79. \<open>pop_init.__name__ == 'load'\<close> is read as a test of the configured name:
  \<open>pop_init\<close> is the attribute of \<open>Population\<close> of that name. The loop over the members of
  the restart branch renames their files and leaves the membership alone; files of
  members are not modelled.
\<close>

definition init_population :: "('c, 'p) population_class \<Rightarrow> 'p state \<Rightarrow> 'p state" where
  "init_population ops s =
     (let name = init_func_name (ga_input s) in
      if name = ''load'' then
        (let s = emit (Pop_init name None) s;
             s = assign_pop (pop_init ops name None) s;
             s = s\<lparr>ga_input := (ga_input s)\<lparr>pop_size := int (len ops (obj s (pop s)))\<rparr>\<rparr>
         in pop_write s)
      else
        (let s = emit (Pop_init name (Some (pop_size (ga_input s)))) s
         in assign_pop (pop_init ops name (Some (pop_size (ga_input s)))) s))"

text \<open>\<open>pop = Population(pop.ga_tools, *pop.optimize_population())\<close>, lines 83 and 141.\<close>

definition optimize :: "('c, 'p) population_class \<Rightarrow> 'p state \<Rightarrow> 'p state" where
  "optimize ops s =
     (let s = emit (Optimize_population (obj s (pop s))) s
      in assign_pop (Population ops (optimize_population ops (obj s (pop s)))) s)"

text \<open>\<open>pop = Population(pop.ga_tools, *pop.calculate_member_fitness())\<close>, lines 87 and 145.\<close>

definition calculate_fitness :: "('c, 'p) population_class \<Rightarrow> 'p state \<Rightarrow> 'p state" where
  "calculate_fitness ops s =
     (let s = emit (Calculate_member_fitness (obj s (pop s))) s
      in assign_pop (Population ops (calculate_member_fitness ops (obj s (pop s)))) s)"

text \<open>\<open>pop.normalize_fitness_values()\<close>, lines 91 and 150: the receiver is updated.\<close>

definition normalize :: "('c, 'p) population_class \<Rightarrow> 'p state \<Rightarrow> 'p state" where
  "normalize ops s =
     (let s = emit (Normalize_fitness_values (obj s (pop s))) s
      in update_pop (normalize_fitness_values ops) s)"

text \<open>\<open>offspring = pop.gen_offspring()\<close> and \<open>mutants = pop.gen_mutants()\<close>, lines 123, 127.\<close>

definition crossovers :: "('c, 'p) population_class \<Rightarrow> 'p state \<Rightarrow> nat \<times> 'p state" where
  "crossovers ops s =
     (let s = emit (Gen_offspring (obj s (pop s))) s
      in new (gen_offspring ops (obj s (pop s))) s)"

definition mutations :: "('c, 'p) population_class \<Rightarrow> 'p state \<Rightarrow> nat \<times> 'p state" where
  "mutations ops s =
     (let s = emit (Gen_mutants (obj s (pop s))) s
      in new (gen_mutants ops (obj s (pop s))) s)"

text \<open>
  \<open>pop += offspring + mutants\<close>, line 131: the sum of the right-hand side is a new
  object, and \<open>pop\<close> is bound to the sum of its old value and that object. The statement
  is read as \<open>pop = pop + (offspring + mutants)\<close>, which is what Python does for a class
  with \<open>__add__\<close> and without \<open>__iadd__\<close>; the class is not among the sources, and the
  specification describes its merge as returning a new population.
\<close>

definition add_offspring_mutants ::
  "('c, 'p) population_class \<Rightarrow> nat \<Rightarrow> nat \<Rightarrow> 'p state \<Rightarrow> 'p state" where
  "add_offspring_mutants ops offspring mutants s =
     (let s = emit (Add (obj s offspring) (obj s mutants)) s;
          (tmp, s) = new (add ops (obj s offspring) (obj s mutants)) s;
          s = emit (Add (obj s (pop s)) (obj s tmp)) s
      in assign_pop (add ops (obj s (pop s)) (obj s tmp)) s)"

text \<open>Lines 121 to 131: crossover, mutation and the sum.\<close>

definition vary :: "('c, 'p) population_class \<Rightarrow> 'p state \<Rightarrow> 'p state" where
  "vary ops s =
     (let (offspring, s) = crossovers ops s;
          (mutants, s) = mutations ops s
      in add_offspring_mutants ops offspring mutants s)"

text \<open>
  \<open>pop.remove_duplicates()\<close>, line 135: a statement, \<open>pop\<close> is not assigned and the
  duplicates leave the object it denotes.
\<close>

definition remove_duplicates_in_place ::
  "('c, 'p) population_class \<Rightarrow> 'p state \<Rightarrow> 'p state" where
  "remove_duplicates_in_place ops s =
     (let s = emit (Remove_duplicates (obj s (pop s))) s
      in update_pop (remove_duplicates ops) s)"

text \<open>\<open>pop = pop.gen_next_gen(ga_input.pop_size)\<close>, line 160.\<close>

definition select :: "('c, 'p) population_class \<Rightarrow> 'p state \<Rightarrow> 'p state" where
  "select ops s =
     (let s = emit (Gen_next_gen (obj s (pop s)) (pop_size (ga_input s))) s
      in assign_pop (gen_next_gen ops (obj s (pop s)) (pop_size (ga_input s))) s)"

text \<open>Lines 167 to 175: the \<open>selected\<close> directory, and \<open>progress.update(pop)\<close>.\<close>

definition place_selected :: "'p state \<Rightarrow> 'p state" where
  "place_selected s =
     (let s = mkdir ''selected'' s;
          s = chdir ''selected'' s;
          s = pop_write s
      in pop_dump ''pop_dump'' s)"

definition progress_update :: "'p state \<Rightarrow> 'p state" where
  "progress_update s = emit (Progress_update (obj s (pop s))) s"

subsection \<open>One generation, the loop and the run\<close>

text \<open>
  The body of the loop of line 106 for the generation \<open>x\<close>. \<open>Raise\<close> is the exception of
  line 109, \<open>Break\<close> the \<open>break\<close> of line 180. The \<open>print\<close> calls and the timing
  context \<open>time_it\<close> are left out.
\<close>

definition generation ::
  "('c, 'p) population_class \<Rightarrow> path \<Rightarrow> int \<Rightarrow> 'p state \<Rightarrow> flow \<times> 'p state" where
  "generation ops root_dir x s =
     (let s = emit (Check_size (int (len ops (obj s (pop s)))) (pop_size (ga_input s))) s in
      if int (len ops (obj s (pop s))) \<noteq> pop_size (ga_input s) then
        (Raise (PopulationSizeError ''Population has the wrong size.''), s)
      else
        (let s = chdir_abs root_dir s;
             s = mkdir (str x) s;
             s = chdir (str x) s;
             s = vary ops s;
             s = remove_duplicates_in_place ops s;
             s = pop_dump ''preselection_pop_dump'' s;
             s = optimize ops s;
             s = calculate_fitness ops s;
             s = normalize ops s;
             s = select ops s;
             s = place_selected s;
             s = progress_update s;
             stop = exit ops (obj s (pop s));
             s = emit (Exit (obj s (pop s)) stop) s
         in (if stop then Break else Continue, s)))"

text \<open>
  \<open>for x in range(1, ga_input.num_generations+1)\<close>, over the list of the values of \<open>x\<close>
  still to come. The result is the exception that left the loop, if one did, and the state.
\<close>

fun ga_loop ::
  "('c, 'p) population_class \<Rightarrow> path \<Rightarrow> int list \<Rightarrow> 'p state \<Rightarrow> ga_error option \<times> 'p state"
  where
  "ga_loop ops root_dir [] s = (None, s)"
| "ga_loop ops root_dir (x # xs) s =
     (case generation ops root_dir x s of
        (Raise e, s') \<Rightarrow> (Some e, s')
      | (Break, s') \<Rightarrow> (None, s')
      | (Continue, s') \<Rightarrow> ga_loop ops root_dir xs s')"

text \<open>Lines 182 to 206, after the loop.\<close>

definition finish :: "path \<Rightarrow> path \<Rightarrow> 'p state \<Rightarrow> 'p state" where
  "finish root_dir launch_dir s =
     (let s = emit Kill_macromodel s;
          s = emit (Plot_epp (root_dir @ [''epp.png''])) s;
          s = chdir_abs root_dir s;
          s = emit (Dump_progress (cwd s @ [''progress.dmp''])) s;
          s = chdir_abs launch_dir s;
          s = emit Tar_output s
      in emit Archive_output s)"

text \<open>
  The state \<open>run\<close> starts in: the launch directory is the empty path, nothing is allocated
  and nothing is logged. \<open>input_file\<close> is the base name of \<open>sys.argv[1]\<close>.
\<close>

definition start :: "ga_input \<Rightarrow> 'p state" where
  "start inp =
     \<lparr>heap = Map.empty, next_ref = 0, pop = 0, ga_input = inp, cwd = [], trace = []\<rparr>"

text \<open>Lines 31 to 46: cleanup, archiving of an earlier output, the new output directory.\<close>

definition enter_output :: "string \<Rightarrow> 'p state \<Rightarrow> 'p state" where
  "enter_output input_file s =
     (let s = emit Kill_macromodel s;
          s = emit Archive_output s;
          s = mkdir ''output'' s;
          s = emit (Copyfile (cwd s @ [''output'', input_file])) s
      in chdir ''output'' s)"

text \<open>Lines 56 to 103: the initial population, optimized, evaluated and normalized.\<close>

definition initial_generation :: "('c, 'p) population_class \<Rightarrow> 'p state \<Rightarrow> 'p state" where
  "initial_generation ops s =
     (let s = mkdir ''initial'' s;
          s = chdir ''initial'' s;
          s = init_population ops s;
          s = optimize ops s;
          s = calculate_fitness ops s;
          s = normalize ops s;
          s = pop_dump ''pop_dump'' s
      in progress_update s)"

definition run ::
  "('c, 'p) population_class \<Rightarrow> string \<Rightarrow> ga_input \<Rightarrow> ga_error option \<times> 'p state" where
  "run ops input_file inp =
     (let s = start inp;
          launch_dir = cwd s;
          s = enter_output input_file s;
          root_dir = cwd s;
          s = initial_generation ops s
      in case ga_loop ops root_dir [1..num_generations (ga_input s)] s of
           (Some e, s) \<Rightarrow> (Some e, s)
         | (None, s) \<Rightarrow> (None, finish root_dir launch_dir s))"

subsection \<open>What the log and the result are, as functions of the population\<close>

text \<open>
  The population \<open>pop\<close> denotes, and the condition under which \<open>pop\<close> denotes an object
  that was allocated: it holds from the first assignment to \<open>pop\<close> on.
\<close>

definition cur :: "'p state \<Rightarrow> 'p" where
  "cur s = obj s (pop s)"

definition allocated :: "'p state \<Rightarrow> bool" where
  "allocated s = (pop s < next_ref s)"

text \<open>
  The value of \<open>pop\<close> after line 135, after line 150 and after line 160, from its value
  \<open>p\<close> before: these name the data flow of one generation.
\<close>

definition merged :: "('c, 'p) population_class \<Rightarrow> 'p \<Rightarrow> 'p" where
  "merged ops p =
     remove_duplicates ops (add ops p (add ops (gen_offspring ops p) (gen_mutants ops p)))"

definition evaluated :: "('c, 'p) population_class \<Rightarrow> 'p \<Rightarrow> 'p" where
  "evaluated ops p =
     normalize_fitness_values ops
       (Population ops (calculate_member_fitness ops
          (Population ops (optimize_population ops p))))"

definition survivors :: "('c, 'p) population_class \<Rightarrow> int \<Rightarrow> 'p \<Rightarrow> 'p" where
  "survivors ops n p = gen_next_gen ops (evaluated ops (merged ops p)) n"

text \<open>
  The calls of a generation that passes the size check, of the whole loop, and the outcome
  of the loop, as functions of the population at the start; \<open>n\<close> is \<open>ga_input.pop_size\<close>.
  They are proved to agree with \<open>generation\<close> and \<open>ga_loop\<close> below.
\<close>

definition generation_events ::
  "('c, 'p) population_class \<Rightarrow> path \<Rightarrow> int \<Rightarrow> int \<Rightarrow> 'p \<Rightarrow> 'p event list" where
  "generation_events ops root_dir x n p =
     (let offspring = gen_offspring ops p;
          mutants = gen_mutants ops p;
          m = merged ops p;
          opt = Population ops (optimize_population ops m);
          fit = Population ops (calculate_member_fitness ops opt);
          q = survivors ops n p
      in [Check_size (int (len ops p)) n,
          Mkdir (root_dir @ [str x]),
          Gen_offspring p,
          Gen_mutants p,
          Add offspring mutants,
          Add p (add ops offspring mutants),
          Remove_duplicates (add ops p (add ops offspring mutants)),
          Dump m (root_dir @ [str x, ''preselection_pop_dump'']),
          Optimize_population m,
          Calculate_member_fitness opt,
          Normalize_fitness_values fit,
          Gen_next_gen (normalize_fitness_values ops fit) n,
          Mkdir (root_dir @ [str x, ''selected'']),
          Write q (root_dir @ [str x, ''selected'']),
          Dump q (root_dir @ [str x, ''selected'', ''pop_dump'']),
          Progress_update q,
          Exit q (exit ops q)])"

fun loop_events ::
  "('c, 'p) population_class \<Rightarrow> path \<Rightarrow> int \<Rightarrow> int list \<Rightarrow> 'p \<Rightarrow> 'p event list" where
  "loop_events ops root_dir n [] p = []"
| "loop_events ops root_dir n (x # xs) p =
     (if int (len ops p) \<noteq> n then [Check_size (int (len ops p)) n]
      else generation_events ops root_dir x n p @
        (if exit ops (survivors ops n p) then []
         else loop_events ops root_dir n xs (survivors ops n p)))"

fun loop_result ::
  "('c, 'p) population_class \<Rightarrow> int \<Rightarrow> int list \<Rightarrow> 'p \<Rightarrow> ga_error option \<times> 'p" where
  "loop_result ops n [] p = (None, p)"
| "loop_result ops n (x # xs) p =
     (if int (len ops p) \<noteq> n then
        (Some (PopulationSizeError ''Population has the wrong size.''), p)
      else if exit ops (survivors ops n p) then (None, survivors ops n p)
      else loop_result ops n xs (survivors ops n p))"

text \<open>
  The population size in force after line 79, and the population \<open>pop\<close> denotes when the
  loop starts.
\<close>

definition size_in_force :: "('c, 'p) population_class \<Rightarrow> ga_input \<Rightarrow> int" where
  "size_in_force ops inp =
     (if init_func_name inp = ''load'' then int (len ops (pop_init ops ''load'' None))
      else pop_size inp)"

definition initial_population :: "('c, 'p) population_class \<Rightarrow> ga_input \<Rightarrow> 'p" where
  "initial_population ops inp =
     (if init_func_name inp = ''load'' then pop_init ops ''load'' None
      else pop_init ops (init_func_name inp) (Some (pop_size inp)))"

text \<open>
  The calls before the loop (lines 31 to 103) and after it (lines 185 to 206); the root
  directory is \<open>output\<close> below the launch directory.
\<close>

definition setup_events :: "('c, 'p) population_class \<Rightarrow> string \<Rightarrow> ga_input \<Rightarrow> 'p event list" where
  "setup_events ops f inp =
     (let p = initial_population ops inp;
          opt = Population ops (optimize_population ops p);
          fit = Population ops (calculate_member_fitness ops opt)
      in [Kill_macromodel, Archive_output, Mkdir [''output''], Copyfile [''output'', f],
          Mkdir [''output'', ''initial'']]
         @ (if init_func_name inp = ''load''
            then [Pop_init ''load'' None, Write p [''output'', ''initial'']]
            else [Pop_init (init_func_name inp) (Some (pop_size inp))])
         @ [Optimize_population p, Calculate_member_fitness opt, Normalize_fitness_values fit,
            Dump (evaluated ops p) [''output'', ''initial'', ''pop_dump''],
            Progress_update (evaluated ops p)])"

definition finish_events :: "'p event list" where
  "finish_events = [Kill_macromodel, Plot_epp [''output'', ''epp.png''],
     Dump_progress [''output'', ''progress.dmp''], Tar_output, Archive_output]"

text \<open>Classes of logged calls: the directory moves, the exit checks, the directories made.\<close>

fun is_move :: "'p event \<Rightarrow> bool" where
  "is_move Archive_output = True"
| "is_move Tar_output = True"
| "is_move e = False"

fun is_exit :: "'p event \<Rightarrow> bool" where
  "is_exit (Exit p b) = True"
| "is_exit e = False"





subsection \<open>Populations as the specification describes them\<close>

text \<open>
  Modelled from the spec: the class \<open>Population\<close> of module \<open>.ga\<close> is not among the sources.
  A population is a rooted tree: a node holds its direct candidates and its child
  populations.
\<close>

datatype 'c population = Node (members: "'c list") (populations: "'c population list")

text \<open>
  Modelled from the spec: flattened iteration over a \<open>Population\<close> (not among the sources)
  yields all candidates across all descendant nodes.
\<close>

fun flatten_population :: "'c population \<Rightarrow> 'c list" where
  "flatten_population (Node ms ps) = ms @ concat (map flatten_population ps)"

text \<open>
  Modelled from the spec: \<open>size()\<close> of a \<open>Population\<close> (not among the sources) is the count
  of flattened candidates.
\<close>

definition population_size :: "'c population \<Rightarrow> nat" where
  "population_size p = length (flatten_population p)"

text \<open>
  Modelled from the spec: \<open>merge(other)\<close> of a \<open>Population\<close> (not among the sources) returns a
  new population whose flattened candidates are those of \<open>self\<close> followed by those of
  \<open>other\<close>, not yet deduplicated, both kept as subpopulations.
\<close>

definition merge :: "'c population \<Rightarrow> 'c population \<Rightarrow> 'c population" where
  "merge p other = Node [] [p, other]"

text \<open>
  Modelled from the spec: \<open>deduplicate()\<close> of a \<open>Population\<close> (not among the sources) returns
  a new population retaining, for each distinct identity, exactly one representative, the
  first occurrence in flattening order; order otherwise preserved. \<open>dedupe\<close> walks the
  flattened candidates with the identities seen so far.
\<close>

fun dedupe :: "('c \<Rightarrow> 'k) \<Rightarrow> 'k list \<Rightarrow> 'c list \<Rightarrow> 'c list" where
  "dedupe identity seen [] = []"
| "dedupe identity seen (c # cs) =
     (if identity c \<in> set seen then dedupe identity seen cs
      else c # dedupe identity (identity c # seen) cs)"

definition deduplicate :: "('c \<Rightarrow> 'k) \<Rightarrow> 'c population \<Rightarrow> 'c population" where
  "deduplicate identity p = Node (dedupe identity [] (flatten_population p)) []"

text \<open>
  Modelled from the spec: \<open>Population.exit\<close> (not among the sources) evaluates the optional
  exit predicate of the strategy bundle against the population; the predicate may be
  absent, and then the exit check never stops the run.
\<close>

definition population_exit :: "('p \<Rightarrow> bool) option \<Rightarrow> 'p \<Rightarrow> bool" where
  "population_exit exit_func p = (case exit_func of None \<Rightarrow> False | Some f \<Rightarrow> f p)"

subsection \<open>An example configuration\<close>

text \<open>
  Strategies over the populations above for running the model on concrete inputs. A
  candidate is a number, its own identity and its own fitness. Crossover derives offspring
  from the first two candidates and mutation from the first, so that every generation
  produces a duplicate; survivor selection takes the fittest candidates that reach
  \<open>cutoff\<close>; the exit predicate, if there is a \<open>goal\<close>, holds when the \<open>goal\<close> is in the
  population. A restart restores three candidates, a fresh start makes \<open>size\<close> candidates.
\<close>

definition example_ops :: "nat \<Rightarrow> nat option \<Rightarrow> (nat, nat population) population_class" where
  "example_ops cutoff goal =
     \<lparr>pop_init = (\<lambda>name n_opt. case n_opt of
                     None \<Rightarrow> Node [4, 2, 3] []
                   | Some n \<Rightarrow> Node (map (\<lambda>i. nat i + 1) [1..n]) []),
      len = population_size,
      Population = (\<lambda>ms. Node ms []),
      optimize_population = flatten_population,
      calculate_member_fitness = flatten_population,
      normalize_fitness_values = (\<lambda>p. p),
      gen_offspring = (\<lambda>p. Node (map (\<lambda>c. c + 10) (take 2 (flatten_population p))) []),
      gen_mutants = (\<lambda>p. Node (map (\<lambda>c. c + 10) (take 1 (flatten_population p))) []),
      add = merge,
      remove_duplicates = deduplicate (\<lambda>c. c),
      gen_next_gen = (\<lambda>p n. Node (take (nat n)
                        (filter (\<lambda>c. cutoff \<le> c) (rev (sort (flatten_population p))))) []),
      exit = population_exit (map_option (\<lambda>g p. g \<in> set (flatten_population p)) goal)\<rparr>"

text \<open>A state at the head of the loop: two candidates, wanted size two.\<close>

definition example_state :: "nat population state" where
  "example_state =
     \<lparr>heap = [0 \<mapsto> Node [2, 3] []], next_ref = 1, pop = 0,
      ga_input = \<lparr>pop_size = 2, num_generations = 3, init_func_name = ''init_random''\<rparr>,
      cwd = [''output'', ''initial''], trace = []\<rparr>"

definition example_input :: "int \<Rightarrow> int \<Rightarrow> string \<Rightarrow> ga_input" where
  "example_input n generations name =
     \<lparr>pop_size = n, num_generations = generations, init_func_name = name\<rparr>"

section \<open>Properties of building blocks\<close>

text \<open>
  C9. The placer ids of a building block follow a fixed three-case rule: a supplied
  \<open>placer_ids\<close> tuple is used verbatim; otherwise, with at least one functional group, they
  are the in-order concatenation of the functional groups' placer ids; otherwise they are
  the ids of all atoms of the molecule.
\<close>

theorem normalize_placer_ids_three_cases:
  "normalize_placer_ids atoms (Some ids) fgs = ids
   \<and> (fgs \<noteq> [] \<longrightarrow>
        normalize_placer_ids atoms None fgs = concat (map fg_placer_ids fgs))
   \<and> normalize_placer_ids atoms None [] = map atom_id atoms"
  by (simp add: normalize_placer_ids_def flatten_def get_placer_ids_def get_id_def
      cong: map_cong)

theorem normalize_placer_ids_three_cases_witness:
  "normalize_placer_ids
     [\<lparr>atom_id = 0, atomic_number = 7, charge = 0\<rparr>,
      \<lparr>atom_id = 1, atomic_number = 6, charge = 0\<rparr>,
      \<lparr>atom_id = 2, atomic_number = 6, charge = 0\<rparr>] (Some [2, 0])
     [\<lparr>fg_atom_ids = [0, 1], fg_placer_ids = [1]\<rparr>] = [2, 0]
   \<and> normalize_placer_ids
     [\<lparr>atom_id = 0, atomic_number = 7, charge = 0\<rparr>,
      \<lparr>atom_id = 1, atomic_number = 6, charge = 0\<rparr>,
      \<lparr>atom_id = 2, atomic_number = 6, charge = 0\<rparr>] None
     [\<lparr>fg_atom_ids = [0, 1], fg_placer_ids = [1]\<rparr>,
      \<lparr>fg_atom_ids = [2, 1], fg_placer_ids = [2, 1]\<rparr>] = [1, 2, 1]
   \<and> normalize_placer_ids
     [\<lparr>atom_id = 0, atomic_number = 7, charge = 0\<rparr>,
      \<lparr>atom_id = 1, atomic_number = 6, charge = 0\<rparr>,
      \<lparr>atom_id = 2, atomic_number = 6, charge = 0\<rparr>] None [] = [0, 1, 2]"
  using normalize_placer_ids_three_cases
    [of "[\<lparr>atom_id = 0, atomic_number = 7, charge = 0\<rparr>,
          \<lparr>atom_id = 1, atomic_number = 6, charge = 0\<rparr>,
          \<lparr>atom_id = 2, atomic_number = 6, charge = 0\<rparr>]" "[2, 0]"
        "[\<lparr>fg_atom_ids = [0, 1], fg_placer_ids = [1]\<rparr>]"]
    normalize_placer_ids_three_cases
    [of "[\<lparr>atom_id = 0, atomic_number = 7, charge = 0\<rparr>,
          \<lparr>atom_id = 1, atomic_number = 6, charge = 0\<rparr>,
          \<lparr>atom_id = 2, atomic_number = 6, charge = 0\<rparr>]" "[2, 0]"
        "[\<lparr>fg_atom_ids = [0, 1], fg_placer_ids = [1]\<rparr>,
          \<lparr>fg_atom_ids = [2, 1], fg_placer_ids = [2, 1]\<rparr>]"]
  by simp

text \<open>
  C10. \<open>init_from_file\<close> raises the \<open>ValueError\<close> of its extension check exactly when the
  extension of the path is none of \<open>.mol\<close>, \<open>.sdf\<close> and \<open>.pdb\<close>; for a supported extension
  the check does not raise and the path goes to the reader registered for the extension:
  \<open>MolFromMolFile\<close> for \<open>.mol\<close> and \<open>.sdf\<close>, \<open>MolFromPDBFile\<close> for \<open>.pdb\<close>.
\<close>

theorem init_from_file_extension_check:
  "((\<exists>msg. init_from_file path = Inl (ValueError msg))
      \<longleftrightarrow> snd (splitext path) \<notin> {''.mol'', ''.sdf'', ''.pdb''})
   \<and> (snd (splitext path) = ''.mol'' \<longrightarrow>
        init_from_file path = Inr (MolFromMolFile path False False))
   \<and> (snd (splitext path) = ''.sdf'' \<longrightarrow>
        init_from_file path = Inr (MolFromMolFile path False False))
   \<and> (snd (splitext path) = ''.pdb'' \<longrightarrow>
        init_from_file path = Inr (MolFromPDBFile path False False False))"
  by (auto simp: init_from_file_def Let_def init_funcs_def)

theorem init_from_file_extension_check_witness:
  "init_from_file ''/data/run.1/amine.mol''
     = Inr (MolFromMolFile ''/data/run.1/amine.mol'' False False)
   \<and> init_from_file ''cage.pdb'' = Inr (MolFromPDBFile ''cage.pdb'' False False False)
   \<and> (\<exists>msg. init_from_file ''/data/.mol'' = Inl (ValueError msg))
   \<and> (\<exists>msg. init_from_file ''cage.tar.PDB'' = Inl (ValueError msg))"
proof -
  have 1: "snd (splitext ''/data/run.1/amine.mol'') = ''.mol''" by code_simp
  have 2: "snd (splitext ''cage.pdb'') = ''.pdb''" by code_simp
  have 3: "snd (splitext ''/data/.mol'') = []" by code_simp
  have 4: "snd (splitext ''cage.tar.PDB'') = ''.PDB''" by code_simp
  show ?thesis
    using init_from_file_extension_check [of "''/data/run.1/amine.mol''"]
      init_from_file_extension_check [of "''cage.pdb''"]
      init_from_file_extension_check [of "''/data/.mol''"]
      init_from_file_extension_check [of "''cage.tar.PDB''"] 1 2 3 4
    by simp
qed

section \<open>The model and its log\<close>

subsection \<open>What each stage does to the log, the population and the input\<close>

lemmas raw_defs = cur_def allocated_def obj_def emit_def new_def assign_pop_def update_pop_def
  mkdir_def chdir_def chdir_abs_def pop_write_def pop_dump_def progress_update_def Let_def

lemma emit_simps:
  "trace (emit e s) = trace s @ [e]" "cur (emit e s) = cur s"
  "ga_input (emit e s) = ga_input s" "cwd (emit e s) = cwd s" "allocated (emit e s) = allocated s"
  by (simp_all add: raw_defs)

lemma mkdir_simps:
  "trace (mkdir name s) = trace s @ [Mkdir (cwd s @ [name])]" "cur (mkdir name s) = cur s"
  "ga_input (mkdir name s) = ga_input s" "cwd (mkdir name s) = cwd s"
  "allocated (mkdir name s) = allocated s"
  by (simp_all add: raw_defs)

lemma chdir_simps:
  "trace (chdir name s) = trace s" "cur (chdir name s) = cur s"
  "ga_input (chdir name s) = ga_input s" "cwd (chdir name s) = cwd s @ [name]"
  "allocated (chdir name s) = allocated s"
  by (simp_all add: raw_defs)

lemma chdir_abs_simps:
  "trace (chdir_abs dir s) = trace s" "cur (chdir_abs dir s) = cur s"
  "ga_input (chdir_abs dir s) = ga_input s" "cwd (chdir_abs dir s) = dir"
  "allocated (chdir_abs dir s) = allocated s"
  by (simp_all add: raw_defs)

lemma pop_write_simps:
  "trace (pop_write s) = trace s @ [Write (cur s) (cwd s)]" "cur (pop_write s) = cur s"
  "ga_input (pop_write s) = ga_input s" "cwd (pop_write s) = cwd s"
  "allocated (pop_write s) = allocated s"
  by (simp_all add: raw_defs)

lemma pop_dump_simps:
  "trace (pop_dump name s) = trace s @ [Dump (cur s) (cwd s @ [name])]"
  "cur (pop_dump name s) = cur s"
  "ga_input (pop_dump name s) = ga_input s" "cwd (pop_dump name s) = cwd s"
  "allocated (pop_dump name s) = allocated s"
  by (simp_all add: raw_defs)

lemma progress_update_simps:
  "trace (progress_update s) = trace s @ [Progress_update (cur s)]"
  "cur (progress_update s) = cur s"
  "ga_input (progress_update s) = ga_input s" "cwd (progress_update s) = cwd s"
  "allocated (progress_update s) = allocated s"
  by (simp_all add: raw_defs)

lemma optimize_simps:
  "trace (optimize ops s) = trace s @ [Optimize_population (cur s)]"
  "cur (optimize ops s) = Population ops (optimize_population ops (cur s))"
  "ga_input (optimize ops s) = ga_input s" "cwd (optimize ops s) = cwd s"
  "allocated (optimize ops s)"
  by (simp_all add: optimize_def raw_defs)

lemma calculate_fitness_simps:
  "trace (calculate_fitness ops s) = trace s @ [Calculate_member_fitness (cur s)]"
  "cur (calculate_fitness ops s) = Population ops (calculate_member_fitness ops (cur s))"
  "ga_input (calculate_fitness ops s) = ga_input s" "cwd (calculate_fitness ops s) = cwd s"
  "allocated (calculate_fitness ops s)"
  by (simp_all add: calculate_fitness_def raw_defs)

lemma normalize_simps:
  "trace (normalize ops s) = trace s @ [Normalize_fitness_values (cur s)]"
  "cur (normalize ops s) = normalize_fitness_values ops (cur s)"
  "ga_input (normalize ops s) = ga_input s" "cwd (normalize ops s) = cwd s"
  "allocated (normalize ops s) = allocated s"
  by (simp_all add: normalize_def raw_defs)

lemma remove_duplicates_in_place_simps:
  "trace (remove_duplicates_in_place ops s) = trace s @ [Remove_duplicates (cur s)]"
  "cur (remove_duplicates_in_place ops s) = remove_duplicates ops (cur s)"
  "ga_input (remove_duplicates_in_place ops s) = ga_input s"
  "cwd (remove_duplicates_in_place ops s) = cwd s"
  "allocated (remove_duplicates_in_place ops s) = allocated s"
  by (simp_all add: remove_duplicates_in_place_def raw_defs)

lemma select_simps:
  "trace (select ops s) = trace s @ [Gen_next_gen (cur s) (pop_size (ga_input s))]"
  "cur (select ops s) = gen_next_gen ops (cur s) (pop_size (ga_input s))"
  "ga_input (select ops s) = ga_input s" "cwd (select ops s) = cwd s"
  "allocated (select ops s)"
  by (simp_all add: select_def raw_defs)

lemma place_selected_simps:
  "trace (place_selected s) =
     trace s @ [Mkdir (cwd s @ [''selected'']), Write (cur s) (cwd s @ [''selected'']),
                Dump (cur s) (cwd s @ [''selected'', ''pop_dump''])]"
  "cur (place_selected s) = cur s"
  "ga_input (place_selected s) = ga_input s" "cwd (place_selected s) = cwd s @ [''selected'']"
  "allocated (place_selected s) = allocated s"
  by (simp_all add: place_selected_def raw_defs)

lemma vary_trace:
  "allocated s \<Longrightarrow> trace (vary ops s) =
     trace s @ [Gen_offspring (cur s), Gen_mutants (cur s),
                Add (gen_offspring ops (cur s)) (gen_mutants ops (cur s)),
                Add (cur s) (add ops (gen_offspring ops (cur s)) (gen_mutants ops (cur s)))]"
  by (simp add: vary_def crossovers_def mutations_def add_offspring_mutants_def raw_defs)

lemma vary_cur:
  "allocated s \<Longrightarrow> cur (vary ops s) =
     add ops (cur s) (add ops (gen_offspring ops (cur s)) (gen_mutants ops (cur s)))"
  by (simp add: vary_def crossovers_def mutations_def add_offspring_mutants_def raw_defs)

lemma vary_simps:
  "ga_input (vary ops s) = ga_input s" "cwd (vary ops s) = cwd s" "allocated (vary ops s)"
  by (simp_all add: vary_def crossovers_def mutations_def add_offspring_mutants_def raw_defs)

lemmas stage_simps = emit_simps mkdir_simps chdir_simps chdir_abs_simps pop_write_simps
  pop_dump_simps progress_update_simps optimize_simps calculate_fitness_simps normalize_simps
  remove_duplicates_in_place_simps select_simps place_selected_simps vary_simps vary_trace
  vary_cur

lemma generation_raise:
  "int (len ops (cur s)) \<noteq> pop_size (ga_input s) \<Longrightarrow>
   generation ops root_dir x s =
     (Raise (PopulationSizeError ''Population has the wrong size.''),
      emit (Check_size (int (len ops (cur s))) (pop_size (ga_input s))) s)"
  by (simp add: generation_def Let_def cur_def [symmetric] emit_simps)

lemma generation_pass:
  assumes "int (len ops (cur s)) = pop_size (ga_input s)" and "allocated s"
  shows "fst (generation ops root_dir x s) =
           (if exit ops (survivors ops (pop_size (ga_input s)) (cur s))
            then Break else Continue)"
    and "trace (snd (generation ops root_dir x s)) =
           trace s @ generation_events ops root_dir x (pop_size (ga_input s)) (cur s)"
    and "cur (snd (generation ops root_dir x s)) =
           survivors ops (pop_size (ga_input s)) (cur s)"
    and "ga_input (snd (generation ops root_dir x s)) = ga_input s"
    and "cwd (snd (generation ops root_dir x s)) = root_dir @ [str x, ''selected'']"
    and "allocated (snd (generation ops root_dir x s))"
  using assms
  by (simp_all add: generation_def Let_def cur_def [symmetric] stage_simps
      generation_events_def survivors_def evaluated_def merged_def)


lemma ga_loop_Cons:
  assumes "allocated s"
  shows "ga_loop ops root_dir (x # xs) s =
     (if int (len ops (cur s)) \<noteq> pop_size (ga_input s) then
        (Some (PopulationSizeError ''Population has the wrong size.''),
         emit (Check_size (int (len ops (cur s))) (pop_size (ga_input s))) s)
      else if exit ops (survivors ops (pop_size (ga_input s)) (cur s)) then
        (None, snd (generation ops root_dir x s))
      else ga_loop ops root_dir xs (snd (generation ops root_dir x s)))"
proof (cases "int (len ops (cur s)) = pop_size (ga_input s)")
  case False
  then show ?thesis by (simp add: generation_raise)
next
  case True
  obtain f s' where g: "generation ops root_dir x s = (f, s')"
    by (cases "generation ops root_dir x s")
  from generation_pass(1) [OF True assms, of root_dir x] g
  have "f = (if exit ops (survivors ops (pop_size (ga_input s)) (cur s)) then Break else Continue)"
    by simp
  with True g show ?thesis by simp
qed

lemma ga_loop_refines:
  "allocated s \<Longrightarrow>
   fst (ga_loop ops root_dir xs s) = fst (loop_result ops (pop_size (ga_input s)) xs (cur s))
   \<and> cur (snd (ga_loop ops root_dir xs s)) = snd (loop_result ops (pop_size (ga_input s)) xs (cur s))
   \<and> trace (snd (ga_loop ops root_dir xs s)) =
       trace s @ loop_events ops root_dir (pop_size (ga_input s)) xs (cur s)
   \<and> ga_input (snd (ga_loop ops root_dir xs s)) = ga_input s"
proof (induction xs arbitrary: s)
  case Nil
  then show ?case by simp
next
  case (Cons x xs)
  show ?case
  proof (cases "int (len ops (cur s)) = pop_size (ga_input s)")
    case False
    with Cons.prems show ?thesis
      by (simp add: ga_loop_Cons emit_simps del: ga_loop.simps)
  next
    case True
    note pass = generation_pass [OF True Cons.prems, of root_dir x]
    show ?thesis
    proof (cases "exit ops (survivors ops (pop_size (ga_input s)) (cur s))")
      case True
      with \<open>int (len ops (cur s)) = pop_size (ga_input s)\<close> Cons.prems pass show ?thesis
        by (simp add: ga_loop_Cons del: ga_loop.simps)
    next
      case False
      with \<open>int (len ops (cur s)) = pop_size (ga_input s)\<close> Cons.prems pass
        Cons.IH [OF pass(6)]
      show ?thesis
        by (simp add: ga_loop_Cons del: ga_loop.simps)
    qed
  qed
qed

lemma enter_output_simps:
  "trace (enter_output f s) =
     trace s @ [Kill_macromodel, Archive_output, Mkdir (cwd s @ [''output'']),
                Copyfile (cwd s @ [''output'', f])]"
  "ga_input (enter_output f s) = ga_input s" "cwd (enter_output f s) = cwd s @ [''output'']"
  by (simp_all add: enter_output_def Let_def emit_simps mkdir_simps chdir_simps)

lemma init_population_simps:
  "trace (init_population ops s) =
     trace s @ (if init_func_name (ga_input s) = ''load''
                then [Pop_init ''load'' None, Write (pop_init ops ''load'' None) (cwd s)]
                else [Pop_init (init_func_name (ga_input s)) (Some (pop_size (ga_input s)))])"
  "cur (init_population ops s) = initial_population ops (ga_input s)"
  "ga_input (init_population ops s) = (ga_input s)\<lparr>pop_size := size_in_force ops (ga_input s)\<rparr>"
  "cwd (init_population ops s) = cwd s"
  "allocated (init_population ops s)"
  by (simp_all add: init_population_def initial_population_def size_in_force_def raw_defs)

lemma start_simps:
  "trace (start inp) = []" "cwd (start inp) = []" "ga_input (start inp) = inp"
  by (simp_all add: start_def)

lemma initial_generation_simps:
  "trace (initial_generation ops (enter_output f (start inp))) = setup_events ops f inp"
  "cur (initial_generation ops (enter_output f (start inp))) = evaluated ops (initial_population ops inp)"
  "ga_input (initial_generation ops (enter_output f (start inp))) = inp\<lparr>pop_size := size_in_force ops inp\<rparr>"
  "allocated (initial_generation ops (enter_output f (start inp)))"
  by (simp_all add: initial_generation_def Let_def stage_simps init_population_simps
      enter_output_simps setup_events_def evaluated_def start_simps initial_population_def)

lemma finish_simps:
  "trace (finish root_dir launch_dir s) =
     trace s @ [Kill_macromodel, Plot_epp (root_dir @ [''epp.png'']),
                Dump_progress (root_dir @ [''progress.dmp'']), Tar_output, Archive_output]"
  "cur (finish root_dir launch_dir s) = cur s"
  "ga_input (finish root_dir launch_dir s) = ga_input s"
  by (simp_all add: finish_def Let_def emit_simps chdir_abs_simps)

lemma run_refines:
  "fst (run ops f inp) =
     fst (loop_result ops (size_in_force ops inp) [1..num_generations inp]
            (evaluated ops (initial_population ops inp)))"
  "cur (snd (run ops f inp)) =
     snd (loop_result ops (size_in_force ops inp) [1..num_generations inp]
            (evaluated ops (initial_population ops inp)))"
  "trace (snd (run ops f inp)) =
     setup_events ops f inp
     @ loop_events ops [''output''] (size_in_force ops inp) [1..num_generations inp]
         (evaluated ops (initial_population ops inp))
     @ (if fst (run ops f inp) = None then finish_events else [])"
  "ga_input (snd (run ops f inp)) = inp\<lparr>pop_size := size_in_force ops inp\<rparr>"
proof -
  let ?s0 = "initial_generation ops (enter_output f (start inp))"
  let ?l = "ga_loop ops [''output''] [1..num_generations inp] ?s0"
  have r: "run ops f inp =
    (case ?l of (Some e, s) \<Rightarrow> (Some e, s) | (None, s) \<Rightarrow> (None, finish [''output''] [] s))"
    by (simp add: run_def Let_def enter_output_simps initial_generation_simps start_simps
        cong: prod.case_cong option.case_cong)
  let ?n = "size_in_force ops inp" and ?p = "evaluated ops (initial_population ops inp)"
    and ?xs = "[1..num_generations inp]"
  have l: "fst ?l = fst (loop_result ops ?n ?xs ?p)" "cur (snd ?l) = snd (loop_result ops ?n ?xs ?p)"
    "trace (snd ?l) = setup_events ops f inp @ loop_events ops [''output''] ?n ?xs ?p"
    "ga_input (snd ?l) = inp\<lparr>pop_size := ?n\<rparr>"
    using ga_loop_refines [where s = ?s0 and ops = ops and root_dir = "[''output'']"
        and xs = ?xs] initial_generation_simps(4) [of ops f inp]
    by (simp_all add: initial_generation_simps)
  obtain e s where ls: "?l = (e, s)" by (cases ?l)
  have e: "e = fst (loop_result ops ?n ?xs ?p)" using l(1) ls by simp
  have s: "cur s = snd (loop_result ops ?n ?xs ?p)"
    "trace s = setup_events ops f inp @ loop_events ops [''output''] ?n ?xs ?p"
    "ga_input s = inp\<lparr>pop_size := ?n\<rparr>"
    using l(2-4) ls by simp_all
  have fst_run: "fst (run ops f inp) = e" using r ls by (cases e) simp_all
  have snd_run: "snd (run ops f inp) = (if e = None then finish [''output''] [] s else s)"
    using r ls by (cases e) simp_all
  show "fst (run ops f inp) = fst (loop_result ops ?n ?xs ?p)"
    using fst_run e by simp
  show "cur (snd (run ops f inp)) = snd (loop_result ops ?n ?xs ?p)"
    using snd_run s(1) by (simp add: finish_simps)
  show "trace (snd (run ops f inp)) =
     setup_events ops f inp @ loop_events ops [''output''] ?n ?xs ?p
     @ (if fst (run ops f inp) = None then finish_events else [])"
    using snd_run fst_run s(2) by (simp add: finish_simps finish_events_def)
  show "ga_input (snd (run ops f inp)) = inp\<lparr>pop_size := ?n\<rparr>"
    using snd_run s(3) by (simp add: finish_simps)
qed

subsection \<open>Properties of the loop, on its log\<close>

lemma loop_result_error:
  "fst (loop_result ops n xs p) = Some e \<Longrightarrow>
   e = PopulationSizeError ''Population has the wrong size.''
   \<and> loop_events ops root_dir n xs p \<noteq> []
   \<and> (\<exists>a. a \<noteq> n \<and> last (loop_events ops root_dir n xs p) = Check_size a n)"
proof (induction xs arbitrary: p)
  case Nil
  then show ?case by simp
next
  case (Cons x xs)
  show ?case
  proof (cases "int (len ops p) = n")
    case False
    with Cons.prems show ?thesis by auto
  next
    case True
    show ?thesis
    proof (cases "exit ops (survivors ops n p)")
      case True
      with \<open>int (len ops p) = n\<close> Cons.prems show ?thesis by simp
    next
      case False
      with \<open>int (len ops p) = n\<close> Cons.prems have
        "fst (loop_result ops n xs (survivors ops n p)) = Some e" by simp
      from Cons.IH [OF this] False \<open>int (len ops p) = n\<close> show ?thesis
        by (simp add: generation_events_def Let_def)
    qed
  qed
qed




lemma generation_events_exit:
  "filter is_exit (generation_events ops root_dir x n p) =
     [Exit (survivors ops n p) (exit ops (survivors ops n p))]"
  by (simp add: generation_events_def Let_def)

lemma setup_finish_exit:
  "filter is_exit (setup_events ops f inp) = []" "filter is_exit finish_events = []"
  by (simp_all add: setup_events_def finish_events_def Let_def)

lemma loop_without_exit_predicate:
  "exit ops = population_exit None \<Longrightarrow> fst (loop_result ops n xs p) = None \<Longrightarrow>
   length (filter is_exit (loop_events ops root_dir n xs p)) = length xs"
proof (induction xs arbitrary: p)
  case Nil
  then show ?case by simp
next
  case (Cons x xs)
  from Cons.prems(1) have no: "\<not> exit ops (survivors ops n p)"
    by (simp add: population_exit_def)
  from Cons.prems(2) have size: "int (len ops p) = n"
    by (auto split: if_splits)
  from Cons.prems(2) no size have "fst (loop_result ops n xs (survivors ops n p)) = None"
    by simp
  from Cons.IH [OF Cons.prems(1) this] no size show ?case
    by (simp add: generation_events_exit)
qed




lemma loop_events_no_moves: "filter is_move (loop_events ops root_dir n xs p) = []"
  by (induction xs arbitrary: p) (simp_all add: generation_events_def Let_def)

lemma setup_events_moves:
  "setup_events ops f inp = Kill_macromodel # Archive_output # drop 2 (setup_events ops f inp)"
  "filter is_move (drop 2 (setup_events ops f inp)) = []"
  by (simp_all add: setup_events_def Let_def)

lemma vary_object:
  "pop (vary ops s) = next_ref s + 3"
  "allocated s \<Longrightarrow> heap (vary ops s) (pop (vary ops s)) =
     Some (add ops (cur s) (add ops (gen_offspring ops (cur s)) (gen_mutants ops (cur s))))"
  by (simp_all add: vary_def crossovers_def mutations_def add_offspring_mutants_def raw_defs)

lemma remove_duplicates_in_place_object:
  "pop (remove_duplicates_in_place ops s) = pop s"
  "heap (remove_duplicates_in_place ops s) = (heap s)(pop s \<mapsto> remove_duplicates ops (cur s))"
  by (simp_all add: remove_duplicates_in_place_def raw_defs)

lemma merge_twice_flattened:
  "flatten_population (deduplicate identity (merge p (merge offspring mutants))) =
   flatten_population (deduplicate identity (merge (merge p offspring) mutants))"
  by (simp add: deduplicate_def merge_def)




subsection \<open>The example configuration, evaluated\<close>

lemma example_state_simps:
  "allocated example_state" "cur example_state = Node [2, 3] []"
  "pop_size (ga_input example_state) = 2" "trace example_state = []"
  by (simp_all add: example_state_def allocated_def cur_def obj_def)

lemma example_survivors:
  "survivors (example_ops 0 g) 2 (Node [2, 3] []) = Node [13, 12] []"
  "survivors (example_ops 13 g) 2 (Node [2, 3] []) = Node [13] []"
  "survivors (example_ops 0 g) 2 (Node [13, 12] []) = Node [23, 22] []"
  "merged (example_ops c g) (Node [2, 3] []) = Node [2, 3, 12, 13] []"
  by (simp_all add: survivors_def evaluated_def merged_def example_ops_def merge_def deduplicate_def)

lemma str_small: "str 1 = ''1''" "str 2 = ''2''" "str 3 = ''3''"
  by code_simp+

lemma upto_small: "[1..1] = [1::int]" "[1..2] = [1, 2::int]" "[1..3] = [1, 2, 3::int]"
  by code_simp+

lemma example_input_simps:
  "pop_size (example_input n k name) = n" "num_generations (example_input n k name) = k"
  "init_func_name (example_input n k name) = name"
  "example_input n k name\<lparr>pop_size := m\<rparr> = example_input m k name"
  by (simp_all add: example_input_def)

lemma example_start:
  "size_in_force (example_ops c g) (example_input 2 k ''init_random'') = 2"
  "evaluated (example_ops c g)
     (initial_population (example_ops c g) (example_input 2 k ''init_random'')) = Node [2, 3] []"
  by (simp_all add: size_in_force_def evaluated_def initial_population_def example_ops_def
      example_input_def upto_small)

lemma example_len: "len (example_ops c g) (Node ms []) = length ms"
  by (simp add: example_ops_def population_size_def)

lemma example_exit:
  "exit (example_ops c None) p = False"
  "exit (example_ops c (Some goal)) p = (goal \<in> set (flatten_population p))"
  by (simp_all add: example_ops_def population_exit_def)


lemma example_vary:
  "pop (vary (example_ops c g) example_state) = 4"
  "heap (vary (example_ops c g) example_state) 4 =
     Some (Node [] [Node [2, 3] [], Node [] [Node [12, 13] [], Node [12] []]])"
  "cur (vary (example_ops c g) example_state) =
     Node [] [Node [2, 3] [], Node [] [Node [12, 13] [], Node [12] []]]"
proof -
  show p: "pop (vary (example_ops c g) example_state) = 4"
    by (simp add: vary_object example_state_def)
  show "heap (vary (example_ops c g) example_state) 4 =
     Some (Node [] [Node [2, 3] [], Node [] [Node [12, 13] [], Node [12] []]])"
    using vary_object(2) [OF example_state_simps(1), of "example_ops c g"]
    by (simp add: p example_state_simps) (simp add: example_ops_def merge_def)
  show "cur (vary (example_ops c g) example_state) =
     Node [] [Node [2, 3] [], Node [] [Node [12, 13] [], Node [12] []]]"
    using vary_cur [OF example_state_simps(1), of "example_ops c g"]
    by (simp add: example_state_simps) (simp add: example_ops_def merge_def)
qed

section \<open>Properties of the run\<close>

text \<open>
  C6. In every generation the stages run one after the other in the order variation, merge
  and deduplication, optimization, fitness evaluation, normalization, survivor selection,
  checkpoint, exit check. Normalization is called on the population built from all results
  of the fitness evaluation of the full merged population (previous population, offspring
  and mutants, duplicates removed), and survivor selection is called on the normalized
  population.
\<close>

theorem generation_stage_order:
  assumes "allocated s" and "int (len ops (cur s)) = pop_size (ga_input s)"
  shows "trace (snd (generation ops root_dir x s)) = trace s @
    (let p = cur s;
         n = pop_size (ga_input s);
         offspring = gen_offspring ops p;
         mutants = gen_mutants ops p;
         union = add ops p (add ops offspring mutants);
         m = remove_duplicates ops union;
         opt = Population ops (optimize_population ops m);
         fit = Population ops (calculate_member_fitness ops opt);
         norm = normalize_fitness_values ops fit;
         q = gen_next_gen ops norm n
     in [Check_size n n,
         Mkdir (root_dir @ [str x]),
         Gen_offspring p,
         Gen_mutants p,
         Add offspring mutants,
         Add p (add ops offspring mutants),
         Remove_duplicates union,
         Dump m (root_dir @ [str x, ''preselection_pop_dump'']),
         Optimize_population m,
         Calculate_member_fitness opt,
         Normalize_fitness_values fit,
         Gen_next_gen norm n,
         Mkdir (root_dir @ [str x, ''selected'']),
         Write q (root_dir @ [str x, ''selected'']),
         Dump q (root_dir @ [str x, ''selected'', ''pop_dump'']),
         Progress_update q,
         Exit q (exit ops q)])"
  using generation_pass(2) [OF assms(2) assms(1), of root_dir x] assms(2)
  by (simp add: generation_events_def Let_def survivors_def evaluated_def merged_def)

theorem generation_stage_order_witness:
  "trace (snd (generation (example_ops 0 None) [''output''] 1 example_state)) =
     [Check_size 2 2,
      Mkdir [''output'', ''1''],
      Gen_offspring (Node [2, 3] []),
      Gen_mutants (Node [2, 3] []),
      Add (Node [12, 13] []) (Node [12] []),
      Add (Node [2, 3] []) (Node [] [Node [12, 13] [], Node [12] []]),
      Remove_duplicates (Node [] [Node [2, 3] [], Node [] [Node [12, 13] [], Node [12] []]]),
      Dump (Node [2, 3, 12, 13] []) [''output'', ''1'', ''preselection_pop_dump''],
      Optimize_population (Node [2, 3, 12, 13] []),
      Calculate_member_fitness (Node [2, 3, 12, 13] []),
      Normalize_fitness_values (Node [2, 3, 12, 13] []),
      Gen_next_gen (Node [2, 3, 12, 13] []) 2,
      Mkdir [''output'', ''1'', ''selected''],
      Write (Node [13, 12] []) [''output'', ''1'', ''selected''],
      Dump (Node [13, 12] []) [''output'', ''1'', ''selected'', ''pop_dump''],
      Progress_update (Node [13, 12] []),
      Exit (Node [13, 12] []) False]"
proof -
  have size: "int (len (example_ops 0 None) (cur example_state))
      = pop_size (ga_input example_state)"
    by (simp add: example_state_simps example_ops_def population_size_def)
  show ?thesis
    using generation_stage_order [OF example_state_simps(1) size, of "[''output'']" 1]
    by (simp add: example_state_simps str_small Let_def example_ops_def merge_def
        deduplicate_def population_exit_def)
qed

text \<open>
  C1 (as amended). At the start of every generation, before variation, the size of the
  population is compared with \<open>pop_size\<close>; a mismatch raises \<open>PopulationSizeError\<close>, nothing
  else of the generation is run, the loop and the run end there, with no retry and without
  the closing steps of the run. After survivor selection the same check is reached only
  as the check at the start of the next generation: the survivors of the last generation
  run, or of a generation after which the exit check holds, are not checked.
\<close>

theorem size_check_at_generation_start:
  assumes "allocated s"
  shows
    "(int (len ops (cur s)) \<noteq> pop_size (ga_input s) \<longrightarrow>
        ga_loop ops root_dir (x # xs) s =
          (Some (PopulationSizeError ''Population has the wrong size.''),
           emit (Check_size (int (len ops (cur s))) (pop_size (ga_input s))) s))
     \<and> (int (len ops (cur s)) = pop_size (ga_input s) \<longrightarrow>
        (\<exists>rest. trace (snd (generation ops root_dir x s)) =
           trace s @ Check_size (pop_size (ga_input s)) (pop_size (ga_input s))
             # Mkdir (root_dir @ [str x]) # Gen_offspring (cur s) # rest))
     \<and> (int (len ops (cur s)) = pop_size (ga_input s)
        \<and> \<not> exit ops (survivors ops (pop_size (ga_input s)) (cur s))
        \<and> int (len ops (survivors ops (pop_size (ga_input s)) (cur s))) \<noteq> pop_size (ga_input s) \<longrightarrow>
        fst (ga_loop ops root_dir (x # y # ys) s) =
          Some (PopulationSizeError ''Population has the wrong size.''))
     \<and> (int (len ops (cur s)) = pop_size (ga_input s) \<longrightarrow>
        fst (ga_loop ops root_dir [x] s) = None
        \<and> cur (snd (ga_loop ops root_dir [x] s)) = survivors ops (pop_size (ga_input s)) (cur s))
     \<and> (int (len ops (cur s)) = pop_size (ga_input s)
        \<and> exit ops (survivors ops (pop_size (ga_input s)) (cur s)) \<longrightarrow>
        fst (ga_loop ops root_dir (x # xs) s) = None
        \<and> cur (snd (ga_loop ops root_dir (x # xs) s)) = survivors ops (pop_size (ga_input s)) (cur s))
     \<and> (fst (run ops f inp) \<noteq> None \<longrightarrow>
        fst (run ops f inp) = Some (PopulationSizeError ''Population has the wrong size.'')
        \<and> (\<exists>a b. a \<noteq> b \<and> last (trace (snd (run ops f inp))) = Check_size a b))"
proof -
  let ?n = "pop_size (ga_input s)"
  let ?q = "survivors ops ?n (cur s)"
  have 1: "int (len ops (cur s)) \<noteq> ?n \<longrightarrow>
        ga_loop ops root_dir (x # xs) s =
          (Some (PopulationSizeError ''Population has the wrong size.''),
           emit (Check_size (int (len ops (cur s))) ?n) s)"
    using assms by (simp add: ga_loop_Cons del: ga_loop.simps)
  have 2: "int (len ops (cur s)) = ?n \<longrightarrow>
        (\<exists>rest. trace (snd (generation ops root_dir x s)) =
           trace s @ Check_size ?n ?n # Mkdir (root_dir @ [str x]) # Gen_offspring (cur s) # rest)"
    using generation_pass(2) [OF _ assms, of ops root_dir x]
    by (auto simp: generation_events_def Let_def)
  have r: "fst (ga_loop ops root_dir zs s) = fst (loop_result ops ?n zs (cur s))"
    "cur (snd (ga_loop ops root_dir zs s)) = snd (loop_result ops ?n zs (cur s))" for zs
    using ga_loop_refines [OF assms, of ops root_dir zs] by simp_all
  have 3: "int (len ops (cur s)) = ?n \<and> \<not> exit ops ?q \<and> int (len ops ?q) \<noteq> ?n \<longrightarrow>
        fst (ga_loop ops root_dir (x # y # ys) s) =
          Some (PopulationSizeError ''Population has the wrong size.'')"
    by (simp add: r del: ga_loop.simps)
  have 4: "int (len ops (cur s)) = ?n \<longrightarrow>
        fst (ga_loop ops root_dir [x] s) = None \<and> cur (snd (ga_loop ops root_dir [x] s)) = ?q"
    by (simp add: r del: ga_loop.simps)
  have 5: "int (len ops (cur s)) = ?n \<and> exit ops ?q \<longrightarrow>
        fst (ga_loop ops root_dir (x # xs) s) = None
        \<and> cur (snd (ga_loop ops root_dir (x # xs) s)) = ?q"
    by (simp add: r del: ga_loop.simps)
  have 6: "fst (run ops f inp) \<noteq> None \<longrightarrow>
        fst (run ops f inp) = Some (PopulationSizeError ''Population has the wrong size.'')
        \<and> (\<exists>a b. a \<noteq> b \<and> last (trace (snd (run ops f inp))) = Check_size a b)"
  proof
    assume "fst (run ops f inp) \<noteq> None"
    then obtain e where e: "fst (run ops f inp) = Some e" by auto
    from loop_result_error [OF e [unfolded run_refines(1)], of "[''output'']"] e
    show "fst (run ops f inp) = Some (PopulationSizeError ''Population has the wrong size.'')
        \<and> (\<exists>a b. a \<noteq> b \<and> last (trace (snd (run ops f inp))) = Check_size a b)"
      by (auto simp: run_refines(3))
  qed
  from 1 2 3 4 5 6 show ?thesis by blast
qed


text \<open>
  With one generation configured and a survivor selection that returns one candidate
  where two are wanted, the run ends without an error.
\<close>

theorem last_survivors_unchecked_counterexample:
  "fst (run (example_ops 13 None) ''ga.in'' (example_input 2 1 ''init_random'')) = None
   \<and> cur (snd (run (example_ops 13 None) ''ga.in'' (example_input 2 1 ''init_random'')))
       = Node [13] []
   \<and> len (example_ops 13 None)
        (cur (snd (run (example_ops 13 None) ''ga.in'' (example_input 2 1 ''init_random'')))) = 1
   \<and> pop_size (ga_input
        (snd (run (example_ops 13 None) ''ga.in'' (example_input 2 1 ''init_random'')))) = 2"
  by (simp add: run_refines example_start upto_small example_len example_exit
      example_survivors example_input_simps)

theorem size_check_at_generation_start_witness:
  "ga_loop (example_ops 13 None) [''output''] [1, 2]
       (example_state\<lparr>ga_input := example_input 3 2 ''init_random''\<rparr>)
     = (Some (PopulationSizeError ''Population has the wrong size.''),
        emit (Check_size 2 3) (example_state\<lparr>ga_input := example_input 3 2 ''init_random''\<rparr>))
   \<and> fst (ga_loop (example_ops 13 None) [''output''] [1, 2, 3] example_state)
       = Some (PopulationSizeError ''Population has the wrong size.'')
   \<and> fst (ga_loop (example_ops 13 None) [''output''] [1] example_state) = None
   \<and> cur (snd (ga_loop (example_ops 13 None) [''output''] [1] example_state)) = Node [13] []
   \<and> fst (ga_loop (example_ops 0 (Some 13)) [''output''] [1, 2, 3] example_state) = None
   \<and> cur (snd (ga_loop (example_ops 0 (Some 13)) [''output''] [1, 2, 3] example_state))
       = Node [13, 12] []
   \<and> fst (run (example_ops 13 None) ''ga.in'' (example_input 2 2 ''init_random''))
       = Some (PopulationSizeError ''Population has the wrong size.'')
   \<and> (\<exists>a b. a \<noteq> b \<and> last (trace (snd (run (example_ops 13 None) ''ga.in''
         (example_input 2 2 ''init_random'')))) = Check_size a b)"
proof -
  let ?s = "example_state\<lparr>ga_input := example_input 3 2 ''init_random''\<rparr>"
  have s: "allocated ?s" "cur ?s = Node [2, 3] []" "pop_size (ga_input ?s) = 3"
    by (simp_all add: example_state_def allocated_def cur_def obj_def example_input_def)
  have raised: "fst (run (example_ops 13 None) ''ga.in'' (example_input 2 2 ''init_random''))
      \<noteq> None"
    by (simp add: run_refines example_start upto_small example_len example_exit
        example_survivors example_input_simps)
  show ?thesis
    using size_check_at_generation_start [OF s(1), of "example_ops 13 None" "[''output'']" 1
        "[2]" 2 "[]" "''ga.in''" "example_input 2 2 ''init_random''"]
      size_check_at_generation_start [OF example_state_simps(1), of "example_ops 13 None"
        "[''output'']" 1 "[]" 2 "[3]" "''ga.in''" "example_input 2 2 ''init_random''"]
      size_check_at_generation_start [OF example_state_simps(1), of "example_ops 0 (Some 13)"
        "[''output'']" 1 "[2, 3]" 2 "[3]" "''ga.in''" "example_input 2 2 ''init_random''"]
      raised
    by (simp add: s example_state_simps example_len example_exit example_survivors
        example_input_simps del: ga_loop.simps)
qed



text \<open>
  C4 (as amended). The exit predicate is evaluated exactly once per generation, on the survivors and
  after the checkpoint of the generation (write, dump, progress update). If it holds, the
  loop is left before the next generation and the survivors of the current generation are
  the population the run ends with; if it does not, the loop goes on. With no exit
  predicate configured, a run completes all configured generations, with one exit check
  for each, unless a \<open>PopulationSizeError\<close> ends it before.
\<close>

theorem exit_check_once_after_checkpoint:
  assumes "allocated s" and "int (len ops (cur s)) = pop_size (ga_input s)"
  shows "(let q = survivors ops (pop_size (ga_input s)) (cur s);
              s' = snd (generation ops root_dir x s)
          in filter is_exit (drop (length (trace s)) (trace s')) = [Exit q (exit ops q)]
           \<and> (\<exists>t. trace s' = t @
                 [Write q (root_dir @ [str x, ''selected'']),
                  Dump q (root_dir @ [str x, ''selected'', ''pop_dump'']),
                  Progress_update q,
                  Exit q (exit ops q)])
           \<and> cur s' = q
           \<and> (exit ops q \<longrightarrow>
                ga_loop ops root_dir (x # xs) s = (None, s')
                \<and> cur (finish root_dir launch_dir s') = q)
           \<and> (\<not> exit ops q \<longrightarrow>
                ga_loop ops root_dir (x # xs) s = ga_loop ops root_dir xs s'))
     \<and> (exit ops = population_exit None \<and> fst (run ops f inp) = None \<longrightarrow>
          length (filter is_exit (trace (snd (run ops f inp)))) = nat (num_generations inp))"
proof -
  let ?n = "pop_size (ga_input s)"
  let ?q = "survivors ops ?n (cur s)"
  let ?s' = "snd (generation ops root_dir x s)"
  note pass = generation_pass [OF assms(2) assms(1), of root_dir x]
  have 1: "filter is_exit (drop (length (trace s)) (trace ?s')) = [Exit ?q (exit ops ?q)]"
    by (simp add: pass(2) generation_events_exit)
  have 2: "\<exists>t. trace ?s' = t @
                 [Write ?q (root_dir @ [str x, ''selected'']),
                  Dump ?q (root_dir @ [str x, ''selected'', ''pop_dump'']),
                  Progress_update ?q,
                  Exit ?q (exit ops ?q)]"
  proof -
    have "generation_events ops root_dir x ?n (cur s) =
        take 13 (generation_events ops root_dir x ?n (cur s)) @
          [Write ?q (root_dir @ [str x, ''selected'']),
           Dump ?q (root_dir @ [str x, ''selected'', ''pop_dump'']),
           Progress_update ?q,
           Exit ?q (exit ops ?q)]"
      by (simp add: generation_events_def Let_def)
    then have "trace ?s' = (trace s @ take 13 (generation_events ops root_dir x ?n (cur s))) @
          [Write ?q (root_dir @ [str x, ''selected'']),
           Dump ?q (root_dir @ [str x, ''selected'', ''pop_dump'']),
           Progress_update ?q,
           Exit ?q (exit ops ?q)]"
      by (simp add: pass(2))
    then show ?thesis by blast
  qed
  have 3: "cur ?s' = ?q" by (rule pass(3))
  have 4: "exit ops ?q \<longrightarrow> ga_loop ops root_dir (x # xs) s = (None, ?s')
      \<and> cur (finish root_dir launch_dir ?s') = ?q"
    using assms pass(3) by (simp add: ga_loop_Cons finish_simps del: ga_loop.simps)
  have 5: "\<not> exit ops ?q \<longrightarrow> ga_loop ops root_dir (x # xs) s = ga_loop ops root_dir xs ?s'"
    using assms by (simp add: ga_loop_Cons del: ga_loop.simps)
  have 6: "exit ops = population_exit None \<and> fst (run ops f inp) = None \<longrightarrow>
          length (filter is_exit (trace (snd (run ops f inp)))) = nat (num_generations inp)"
  proof
    assume a: "exit ops = population_exit None \<and> fst (run ops f inp) = None"
    then have "fst (loop_result ops (size_in_force ops inp) [1..num_generations inp]
        (evaluated ops (initial_population ops inp))) = None"
      by (simp add: run_refines(1))
    from loop_without_exit_predicate [OF _ this, of "[''output'']"] a
    show "length (filter is_exit (trace (snd (run ops f inp)))) = nat (num_generations inp)"
      by (simp add: run_refines(3) setup_finish_exit)
  qed
  from 1 2 3 4 5 6 show ?thesis by (simp add: Let_def)
qed

text \<open>
  No exit predicate and two generations configured: the survivor selection of generation 1
  returns one candidate where two are wanted, and the run is ended by the size check of
  generation 2 after a single exit check.
\<close>

theorem no_exit_predicate_aborted_counterexample:
  "exit (example_ops 13 None) = population_exit None
   \<and> num_generations (example_input 2 2 ''init_random'') = 2
   \<and> fst (run (example_ops 13 None) ''ga.in'' (example_input 2 2 ''init_random''))
       = Some (PopulationSizeError ''Population has the wrong size.'')
   \<and> filter is_exit (trace (snd (run (example_ops 13 None) ''ga.in''
        (example_input 2 2 ''init_random'')))) = [Exit (Node [13] []) False]
   \<and> length (filter is_exit (trace (snd (run (example_ops 13 None) ''ga.in''
        (example_input 2 2 ''init_random''))))) = 1"
proof -
  have none: "exit (example_ops 13 None) = population_exit None"
    by (simp add: example_ops_def)
  have log: "filter is_exit (trace (snd (run (example_ops 13 None) ''ga.in''
        (example_input 2 2 ''init_random'')))) = [Exit (Node [13] []) False]"
    "fst (run (example_ops 13 None) ''ga.in'' (example_input 2 2 ''init_random''))
       = Some (PopulationSizeError ''Population has the wrong size.'')"
    by (simp_all add: run_refines(1)
        run_refines(3) [of _ _ "example_input 2 2 ''init_random''"]
        example_start example_input_simps upto_small example_len example_exit
        example_survivors generation_events_exit setup_finish_exit)
  from none log show ?thesis
    by (simp add: example_input_simps)
qed

theorem exit_check_once_after_checkpoint_witness:
  "filter is_exit (trace (snd (generation (example_ops 0 (Some 13)) [''output''] 1
       example_state))) = [Exit (Node [13, 12] []) True]
   \<and> cur (snd (generation (example_ops 0 (Some 13)) [''output''] 1 example_state))
       = Node [13, 12] []
   \<and> ga_loop (example_ops 0 (Some 13)) [''output''] [1, 2, 3] example_state
       = (None, snd (generation (example_ops 0 (Some 13)) [''output''] 1 example_state))
   \<and> ga_loop (example_ops 0 (Some 23)) [''output''] [1, 2, 3] example_state
       = ga_loop (example_ops 0 (Some 23)) [''output''] [2, 3]
           (snd (generation (example_ops 0 (Some 23)) [''output''] 1 example_state))
   \<and> length (filter is_exit (trace (snd (run (example_ops 0 None) ''ga.in''
         (example_input 2 2 ''init_random''))))) = 2"
proof -
  have size: "int (len (example_ops c g) (cur example_state))
      = pop_size (ga_input example_state)" for c g
    by (simp add: example_state_simps example_len)
  have none: "exit (example_ops 0 None) = population_exit None"
    by (simp add: example_ops_def)
  have completes: "fst (run (example_ops 0 None) ''ga.in'' (example_input 2 2 ''init_random''))
      = None"
    by (simp add: run_refines(1) example_start upto_small example_len example_exit
        example_survivors example_input_simps)
  show ?thesis
    using exit_check_once_after_checkpoint [OF example_state_simps(1) size [of 0 "Some 13"],
        where root_dir = "[''output'']" and x = 1 and xs = "[2, 3]" and launch_dir = "[]"
        and f = "''ga.in''" and inp = "example_input 2 2 ''init_random''"]
      exit_check_once_after_checkpoint [OF example_state_simps(1) size [of 0 "Some 23"],
        where root_dir = "[''output'']" and x = 1 and xs = "[2, 3]" and launch_dir = "[]"
        and f = "''ga.in''" and inp = "example_input 2 2 ''init_random''"]
      exit_check_once_after_checkpoint [OF example_state_simps(1) size [of 0 "None"],
        where root_dir = "[''output'']" and x = 1 and xs = "[2, 3]" and launch_dir = "[]"
        and f = "''ga.in''" and inp = "example_input 2 2 ''init_random''"]
      none completes
    by (simp add: Let_def example_state_simps example_survivors example_exit
        example_input_simps del: ga_loop.simps)
qed



text \<open>
  C7. \<open>kill_macromodel\<close> is the first call of the run and is followed at once by the
  archiving of an earlier output directory; no directory is moved between that and the end
  of the loop; a run that is not ended by an error calls \<open>kill_macromodel\<close> again after the
  loop, then plots and dumps the progress, and only then tars and archives the output
  directory. Every directory move in the log of a run has a \<open>kill_macromodel\<close> call of the
  same run before it.
\<close>

theorem cleanup_before_directory_moves:
  "(let r = run ops f inp; t = trace (snd r)
    in take 2 t = [Kill_macromodel, Archive_output]
     \<and> filter is_move (drop 2 t) = (if fst r = None then [Tar_output, Archive_output] else [])
     \<and> (fst r = None \<longrightarrow>
          (\<exists>t'. filter is_move t' = [Archive_output]
             \<and> t = t' @ [Kill_macromodel, Plot_epp [''output'', ''epp.png''],
                         Dump_progress [''output'', ''progress.dmp''],
                         Tar_output, Archive_output]))
     \<and> (\<forall>i < length t. is_move (t ! i) \<longrightarrow> (\<exists>j < i. t ! j = Kill_macromodel)))"
proof -
  let ?r = "run ops f inp"
  let ?t = "trace (snd ?r)"
  let ?loop = "loop_events ops [''output''] (size_in_force ops inp) [1..num_generations inp]
     (evaluated ops (initial_population ops inp))"
  let ?closing = "if fst ?r = None then finish_events else []"
  let ?middle = "drop 2 (setup_events ops f inp) @ ?loop"
  have "?t = setup_events ops f inp @ ?loop @ ?closing"
    by (rule run_refines(3))
  then have t: "?t = Kill_macromodel # Archive_output # ?middle @ ?closing"
    using setup_events_moves(1) [of ops f inp] by simp
  have middle: "filter is_move ?middle = []"
    by (simp add: setup_events_moves(2) loop_events_no_moves)
  have 1: "take 2 ?t = [Kill_macromodel, Archive_output]"
    by (subst t) simp
  have 2: "filter is_move (drop 2 ?t) = (if fst ?r = None then [Tar_output, Archive_output] else [])"
    using middle by (subst t) (simp add: finish_events_def)
  have 3: "\<exists>t'. filter is_move t' = [Archive_output]
             \<and> ?t = t' @ [Kill_macromodel, Plot_epp [''output'', ''epp.png''],
                         Dump_progress [''output'', ''progress.dmp''],
                         Tar_output, Archive_output]" if "fst ?r = None"
  proof (intro exI conjI)
    show "filter is_move (Kill_macromodel # Archive_output # ?middle) = [Archive_output]"
      using middle by simp
    show "?t = (Kill_macromodel # Archive_output # ?middle) @
        [Kill_macromodel, Plot_epp [''output'', ''epp.png''],
         Dump_progress [''output'', ''progress.dmp''], Tar_output, Archive_output]"
      using that by (subst t) (simp add: finish_events_def)
  qed
  have 4: "\<exists>j < i. ?t ! j = Kill_macromodel" if "i < length ?t" "is_move (?t ! i)" for i
  proof -
    have zero: "?t ! 0 = Kill_macromodel" by (subst t) simp
    with that(2) have "i \<noteq> 0" by (cases "i = 0") auto
    with zero show ?thesis by auto
  qed
  from 1 2 3 4 show ?thesis by (simp add: Let_def)
qed

theorem cleanup_before_directory_moves_witness:
  "take 2 (trace (snd (run (example_ops 0 None) ''ga.in'' (example_input 2 2 ''init_random''))))
     = [Kill_macromodel, Archive_output]
   \<and> filter is_move (drop 2 (trace (snd (run (example_ops 0 None) ''ga.in''
        (example_input 2 2 ''init_random''))))) = [Tar_output, Archive_output]
   \<and> filter is_move (drop 2 (trace (snd (run (example_ops 13 None) ''ga.in''
        (example_input 2 2 ''init_random''))))) = []"
proof -
  have completes: "fst (run (example_ops 0 None) ''ga.in'' (example_input 2 2 ''init_random''))
      = None"
    by (simp add: run_refines(1) example_start upto_small example_len example_exit
        example_survivors example_input_simps)
  have raises: "fst (run (example_ops 13 None) ''ga.in'' (example_input 2 2 ''init_random''))
      \<noteq> None"
    by (simp add: run_refines(1) example_start upto_small example_len example_exit
        example_survivors example_input_simps)
  show ?thesis
    using cleanup_before_directory_moves [of "example_ops 0 None" "''ga.in''"
        "example_input 2 2 ''init_random''"]
      cleanup_before_directory_moves [of "example_ops 13 None" "''ga.in''"
        "example_input 2 2 ''init_random''"] completes raises
    by (simp add: Let_def)
qed

text \<open>
  C3 (as amended). In every generation, after offspring and mutants are generated, \<open>pop\<close>
  is bound to a new population object, the sum of the previous population with the sum of
  offspring and mutants, and the duplicates are then removed from that object in place:
  \<open>pop\<close> denotes the same object before and after \<open>remove_duplicates\<close>, no other object
  changes, and the object then holds the deduplicated union. For populations as the
  specification describes them, its flattened candidates are those of
  \<open>population.merge(offspring).merge(mutants).deduplicate()\<close>.
\<close>

theorem merge_new_object_dedup_in_place:
  assumes "allocated s"
  shows "(let p = cur s;
              offspring = gen_offspring ops p;
              mutants = gen_mutants ops p;
              s1 = vary ops s;
              s2 = remove_duplicates_in_place ops s1
          in cur s1 = add ops p (add ops offspring mutants)
           \<and> pop s1 \<noteq> pop s
           \<and> pop s2 = pop s1
           \<and> (\<forall>r. r \<noteq> pop s1 \<longrightarrow> heap s2 r = heap s1 r)
           \<and> heap s2 (pop s1) =
               Some (remove_duplicates ops (add ops p (add ops offspring mutants)))
           \<and> cur s2 = remove_duplicates ops (add ops p (add ops offspring mutants)))
     \<and> (allocated s' \<and> add ops' = merge \<and> remove_duplicates ops' = deduplicate identity \<longrightarrow>
          flatten_population (cur (remove_duplicates_in_place ops' (vary ops' s'))) =
          flatten_population
            (deduplicate identity
               (merge (merge (cur s') (gen_offspring ops' (cur s'))) (gen_mutants ops' (cur s')))))"
proof -
  let ?p = "cur s"
  let ?union = "add ops ?p (add ops (gen_offspring ops ?p) (gen_mutants ops ?p))"
  let ?s1 = "vary ops s"
  let ?s2 = "remove_duplicates_in_place ops ?s1"
  have 1: "cur ?s1 = ?union" using assms by (rule vary_cur)
  have 2: "pop ?s1 \<noteq> pop s" using assms by (simp add: vary_object allocated_def)
  have 3: "pop ?s2 = pop ?s1" by (simp add: remove_duplicates_in_place_object)
  have 4: "\<forall>r. r \<noteq> pop ?s1 \<longrightarrow> heap ?s2 r = heap ?s1 r"
    by (simp add: remove_duplicates_in_place_object)
  have 5: "heap ?s2 (pop ?s1) = Some (remove_duplicates ops ?union)"
    by (simp add: remove_duplicates_in_place_object(2) 1)
  have 6: "cur ?s2 = remove_duplicates ops ?union"
    by (simp add: remove_duplicates_in_place_simps 1)
  have 7: "flatten_population (cur (remove_duplicates_in_place ops' (vary ops' s'))) =
          flatten_population
            (deduplicate identity
               (merge (merge (cur s') (gen_offspring ops' (cur s'))) (gen_mutants ops' (cur s'))))"
    if "allocated s'" "add ops' = merge" "remove_duplicates ops' = deduplicate identity"
    using that
    by (simp add: remove_duplicates_in_place_simps vary_cur merge_twice_flattened)
  from 1 2 3 4 5 6 7 show ?thesis by (simp add: Let_def)
qed

text \<open>
  The object \<open>pop\<close> denotes after the sum holds five candidates, one of them twice; after
  \<open>remove_duplicates\<close> the same object holds four: the removal is in place, no new
  population value is made for it.
\<close>

theorem duplicates_removed_in_place_counterexample:
  "pop (vary (example_ops 0 None) example_state) = 4
   \<and> heap (vary (example_ops 0 None) example_state) 4
       = Some (Node [] [Node [2, 3] [], Node [] [Node [12, 13] [], Node [12] []]])
   \<and> pop (remove_duplicates_in_place (example_ops 0 None)
        (vary (example_ops 0 None) example_state)) = 4
   \<and> heap (remove_duplicates_in_place (example_ops 0 None)
        (vary (example_ops 0 None) example_state)) 4 = Some (Node [2, 3, 12, 13] [])"
  by (simp add: remove_duplicates_in_place_object example_vary)
    (simp add: example_ops_def deduplicate_def)

theorem merge_new_object_dedup_in_place_witness:
  "cur (vary (example_ops 0 None) example_state)
     = Node [] [Node [2, 3] [], Node [] [Node [12, 13] [], Node [12] []]]
   \<and> pop (vary (example_ops 0 None) example_state) \<noteq> pop example_state
   \<and> pop (remove_duplicates_in_place (example_ops 0 None)
        (vary (example_ops 0 None) example_state)) = pop (vary (example_ops 0 None) example_state)
   \<and> cur (remove_duplicates_in_place (example_ops 0 None)
        (vary (example_ops 0 None) example_state)) = Node [2, 3, 12, 13] []
   \<and> flatten_population (cur (remove_duplicates_in_place (example_ops 0 None)
        (vary (example_ops 0 None) example_state)))
       = flatten_population (deduplicate (\<lambda>c. c)
           (merge (merge (Node [2, 3] []) (Node [12, 13] [])) (Node [12] [])))"
proof -
  have ops: "add (example_ops 0 None) = merge"
    "remove_duplicates (example_ops 0 None) = deduplicate (\<lambda>c. c)"
    "gen_offspring (example_ops 0 None) (Node [2, 3] []) = Node [12, 13] []"
    "gen_mutants (example_ops 0 None) (Node [2, 3] []) = Node [12] []"
    by (simp_all add: example_ops_def)
  show ?thesis
    using merge_new_object_dedup_in_place [OF example_state_simps(1),
        where ops = "example_ops 0 None" and s' = example_state
        and ops' = "example_ops 0 None" and identity = "\<lambda>c. c"]
    by (simp add: Let_def example_state_simps ops) (simp add: merge_def deduplicate_def)
qed

end
